theory Spec2Isabelle
  imports Main "HOL-Library.Sublist"
begin

section \<open>JavaScript values, objects and Maps\<close>

text \<open>
  The print system is TypeScript. Values of type \<^verbatim>\<open>any\<close> and the values of option
  properties are JavaScript values; an object is the list of its own properties in
  insertion order. A property that is absent reads as \<^verbatim>\<open>undefined\<close>, and a property
  can also be present and hold \<^verbatim>\<open>undefined\<close>: the interface \<^verbatim>\<open>PrintOptions\<close> declares
  every property optional (\<^verbatim>\<open>pageSize?: PageSize\<close>), which admits both.
\<close>

datatype jsval =
    JSUndefined
  | JSNull
  | JSBool bool
  | JSNum int
  | JSStr string
  | JSObj "(string \<times> jsval) list"

type_synonym jsobject = "(string \<times> jsval) list"

text \<open>
  \<^verbatim>\<open>Map.prototype.set\<close>, and the definition of an own property of an object: an
  existing key keeps its position and takes the new value, a new key goes to the end.
\<close>

fun mapSet :: "'k \<Rightarrow> 'v \<Rightarrow> ('k \<times> 'v) list \<Rightarrow> ('k \<times> 'v) list" where
  "mapSet k v [] = [(k, v)]"
| "mapSet k v (p # ps) = (if fst p = k then (k, v) # ps else p # mapSet k v ps)"

definition mapGet :: "('k \<times> 'v) list \<Rightarrow> 'k \<Rightarrow> 'v option" where
  "mapGet m k = map_of m k"

definition mapHas :: "('k \<times> 'v) list \<Rightarrow> 'k \<Rightarrow> bool" where
  "mapHas m k = (map_of m k \<noteq> None)"

definition mapKeys :: "('k \<times> 'v) list \<Rightarrow> 'k list" where
  "mapKeys m = map fst m"

definition mapValues :: "('k \<times> 'v) list \<Rightarrow> 'v list" where
  "mapValues m = map snd m"

text \<open>\<^verbatim>\<open>Map.prototype.delete\<close> returns whether the key was there.\<close>

definition mapDelete :: "'k \<Rightarrow> ('k \<times> 'v) list \<Rightarrow> bool \<times> ('k \<times> 'v) list" where
  "mapDelete k m = (mapHas m k, filter (\<lambda>p. fst p \<noteq> k) m)"

text \<open>Property read \<^verbatim>\<open>obj.k\<close>: \<^verbatim>\<open>undefined\<close> when the object has no such property.\<close>

definition getProp :: "jsobject \<Rightarrow> string \<Rightarrow> jsval" where
  "getProp obj k = (case map_of obj k of None \<Rightarrow> JSUndefined | Some v \<Rightarrow> v)"

text \<open>An object has each of its own properties once.\<close>

definition isObject :: "jsobject \<Rightarrow> bool" where
  "isObject obj = distinct (map fst obj)"

text \<open>An \<^verbatim>\<open>options\<close> value is \<^verbatim>\<open>undefined\<close> or an object.\<close>

definition optionsValue :: "jsobject option \<Rightarrow> bool" where
  "optionsValue v = (case v of None \<Rightarrow> True | Some obj \<Rightarrow> isObject obj)"

text \<open>
  Object spread \<^verbatim>\<open>{ ...a, ...b }\<close>: a copy of \<open>a\<close>, then every own property of \<open>b\<close>
  defined on it in order. Spreading \<^verbatim>\<open>undefined\<close> adds nothing.
\<close>

fun spread :: "jsobject \<Rightarrow> jsobject \<Rightarrow> jsobject" where
  "spread a [] = a"
| "spread a (p # ps) = spread (mapSet (fst p) (snd p) a) ps"

definition spreadOpt :: "jsobject \<Rightarrow> jsobject option \<Rightarrow> jsobject" where
  "spreadOpt a b = (case b of None \<Rightarrow> a | Some obj \<Rightarrow> spread a obj)"

text \<open>Optional chaining \<^verbatim>\<open>o?.k\<close> and nullish coalescing \<^verbatim>\<open>a ?? b\<close>.\<close>

definition optChain :: "jsobject option \<Rightarrow> string \<Rightarrow> jsval" where
  "optChain ob k = (case ob of None \<Rightarrow> JSUndefined | Some obj \<Rightarrow> getProp obj k)"

definition nullish :: "jsval \<Rightarrow> jsval \<Rightarrow> jsval" where
  "nullish a b = (if a = JSUndefined \<or> a = JSNull then b else a)"

text \<open>\<^verbatim>\<open>Array.prototype.join\<close> on an array of strings.\<close>

fun join :: "string \<Rightarrow> string list \<Rightarrow> string" where
  "join sep [] = []"
| "join sep [x] = x"
| "join sep (x # y # ys) = x @ sep @ join sep (y # ys)"

text \<open>The apostrophe that the messages put around a key.\<close>

abbreviation apos :: string where
  "apos \<equiv> [CHR 0x27]"

text \<open>A thrown \<^verbatim>\<open>new Error(message)\<close>.\<close>

datatype js_error = Error string

datatype console_entry = ConsoleLog string | ConsoleWarn string | ConsoleError string

section \<open>Models (print.models.ts)\<close>

text \<open>
  A component class (\<^verbatim>\<open>Type<any>\<close>) is an opaque reference, identified by its name. The
  preview component tests the reference it is handed for being absent, so a descriptor
  holds an optional one.
\<close>

datatype component = ComponentClass string

record PrintTemplate =
  key :: string
  component :: "component option"
  description :: "string option"

text \<open>
  \<^verbatim>\<open>PrintConfig\<close>, \<^verbatim>\<open>PrintPreviewData\<close> and the template base class all have the
  properties \<^verbatim>\<open>data: any\<close> and \<^verbatim>\<open>options?: PrintOptions\<close> of the interface
  \<^verbatim>\<open>BasePrintTemplate\<close>; \<open>None\<close> is an \<^verbatim>\<open>options\<close> that is \<^verbatim>\<open>undefined\<close>.
\<close>

record BasePrintTemplate =
  data :: jsval
  options :: "jsobject option"

record PrintConfig = BasePrintTemplate +
  templateKey :: string

record PrintPreviewData = BasePrintTemplate +
  templateComponent :: "component option"

section \<open>The template base class (base-print-template.component.ts)\<close>

text \<open>
  A template instance has the two inputs and the signal \<open>optionsSignal\<close>, which
  \<^verbatim>\<open>ngOnInit\<close> and \<^verbatim>\<open>ngOnChanges\<close> set to the \<^verbatim>\<open>options\<close> input. The computed
  properties read the signal.
\<close>

record BasePrintTemplateComponent = BasePrintTemplate +
  optionsSignal :: "jsobject option"

definition newTemplateInstance :: BasePrintTemplateComponent where
  "newTemplateInstance = \<lparr>data = JSObj [], options = None, optionsSignal = None\<rparr>"

definition ngOnInit :: "BasePrintTemplateComponent \<Rightarrow> BasePrintTemplateComponent" where
  "ngOnInit t = t\<lparr>optionsSignal := options t\<rparr>"

definition ngOnChanges :: "BasePrintTemplateComponent \<Rightarrow> BasePrintTemplateComponent" where
  "ngOnChanges t = t\<lparr>optionsSignal := options t\<rparr>"

definition showHeader :: "BasePrintTemplateComponent \<Rightarrow> jsval" where
  "showHeader t = nullish (optChain (optionsSignal t) ''showHeader'') (JSBool True)"

definition showFooter :: "BasePrintTemplateComponent \<Rightarrow> jsval" where
  "showFooter t = nullish (optChain (optionsSignal t) ''showFooter'') (JSBool True)"

definition pageSize :: "BasePrintTemplateComponent \<Rightarrow> jsval" where
  "pageSize t = nullish (optChain (optionsSignal t) ''pageSize'') (JSStr ''A4'')"

definition orientation :: "BasePrintTemplateComponent \<Rightarrow> jsval" where
  "orientation t = nullish (optChain (optionsSignal t) ''orientation'') (JSStr ''portrait'')"

definition isRtl :: "BasePrintTemplateComponent \<Rightarrow> jsval" where
  "isRtl t = nullish (optChain (optionsSignal t) ''rtl'') (JSBool False)"

definition title :: "BasePrintTemplateComponent \<Rightarrow> jsval" where
  "title t = nullish (optChain (optionsSignal t) ''title'') (JSStr ''Document'')"

definition showPageNumbers :: "BasePrintTemplateComponent \<Rightarrow> jsval" where
  "showPageNumbers t = nullish (optChain (optionsSignal t) ''showPageNumbers'') (JSBool False)"

definition watermark :: "BasePrintTemplateComponent \<Rightarrow> jsval" where
  "watermark t = optChain (optionsSignal t) ''watermark''"

section \<open>The preview dialog (print-preview.component.ts)\<close>

text \<open>
  \<^verbatim>\<open>ViewContainerRef.createComponent\<close> and the change detection run the template's
  own code, which may throw: \<open>createError\<close> is what it throws, if anything.
  \<open>created\<close> are the template instances living in the container.
\<close>

record ViewContainerRef =
  createError :: "js_error option"
  created :: "BasePrintTemplateComponent list"

record PrintPreviewComponent =
  templateContainer :: "ViewContainerRef option"
  isLoading :: bool
  error :: "string option"

text \<open>\<^verbatim>\<open>isReady = computed(() => !this.isLoading() && !this.error())\<close>; the empty
  string is falsy.\<close>

definition isReady :: "PrintPreviewComponent \<Rightarrow> bool" where
  "isReady c = (\<not> isLoading c \<and> (error c = None \<or> error c = Some []))"

text \<open>
  A promise is pending, resolved or rejected. A \<^verbatim>\<open>DialogRef\<close> of the CDK dialog
  carries the data it was opened with, whether it is still open, the preview component
  it shows, and the promise that \<^verbatim>\<open>preview\<close> returned for it (settled by the
  subscriber of its \<^verbatim>\<open>closed\<close> stream).
\<close>

datatype promise_state = Pending | Resolved | Rejected js_error

record DialogRef =
  dialogData :: PrintPreviewData
  isOpen :: bool
  componentInstance :: PrintPreviewComponent
  closedPromise :: promise_state

datatype dialog_call = DialogOpen nat | DialogClose nat

datatype timer_callback = CallPrint | CallWindowPrint | CallLoadTemplate nat

section \<open>The print service (print.service.ts)\<close>

text \<open>
  The state of the injectable \<^verbatim>\<open>PrintService\<close> is its two private fields,
  \<open>templateRegistry\<close> and \<open>activeDialogRef\<close> (a reference into \<open>dialogs\<close>).
  The rest is the platform it acts on: the dialogs the CDK \<^verbatim>\<open>Dialog\<close> service has
  opened and the calls made on it, the timers pending from \<^verbatim>\<open>setTimeout\<close> with their
  delay in milliseconds, the number of times \<^verbatim>\<open>window.print()\<close> has run, and the
  console.
\<close>

record app_state =
  templateRegistry :: "(string \<times> PrintTemplate) list"
  activeDialogRef :: "nat option"
  dialogs :: "DialogRef list"
  dialogCalls :: "dialog_call list"
  timers :: "(nat \<times> timer_callback) list"
  windowPrintCalls :: nat
  console :: "console_entry list"

definition initialState :: app_state where
  "initialState =
     \<lparr>templateRegistry = [], activeDialogRef = None, dialogs = [], dialogCalls = [],
      timers = [], windowPrintCalls = 0, console = []\<rparr>"

definition registerTemplate :: "string \<Rightarrow> component option \<Rightarrow> string option \<Rightarrow> app_state \<Rightarrow> app_state" where
  "registerTemplate k c descr s =
     (let s1 = (if mapHas (templateRegistry s) k
                then s\<lparr>console := console s @
                       [ConsoleWarn (''Print template with key '' @ apos @ k @ apos @
                          '' is already registered. Overwriting...'')]\<rparr>
                else s);
          s2 = s1\<lparr>templateRegistry :=
                     mapSet k \<lparr>key = k, component = c, description = descr\<rparr>
                       (templateRegistry s1)\<rparr>
      in s2\<lparr>console := console s2 @
              [ConsoleLog (''Print template '' @ apos @ k @ apos @ '' registered successfully'')]\<rparr>)"

definition getTemplate :: "app_state \<Rightarrow> string \<Rightarrow> PrintTemplate option" where
  "getTemplate s k = mapGet (templateRegistry s) k"

definition getRegisteredTemplates :: "app_state \<Rightarrow> string list" where
  "getRegisteredTemplates s = mapKeys (templateRegistry s)"

definition getAllTemplates :: "app_state \<Rightarrow> PrintTemplate list" where
  "getAllTemplates s = mapValues (templateRegistry s)"

definition hasTemplate :: "app_state \<Rightarrow> string \<Rightarrow> bool" where
  "hasTemplate s k = mapHas (templateRegistry s) k"

definition unregisterTemplate :: "string \<Rightarrow> app_state \<Rightarrow> bool \<times> app_state" where
  "unregisterTemplate k s =
     (let (existed, m) = mapDelete k (templateRegistry s)
      in (existed, s\<lparr>templateRegistry := m\<rparr>))"

definition clearAllTemplates :: "app_state \<Rightarrow> app_state" where
  "clearAllTemplates s =
     s\<lparr>templateRegistry := [], console := console s @ [ConsoleLog ''All print templates cleared'']\<rparr>"

definition getStats :: "app_state \<Rightarrow> nat \<times> string list" where
  "getStats s = (length (templateRegistry s), getRegisteredTemplates s)"

definition mergeDefaultOptions :: "jsobject option \<Rightarrow> jsobject" where
  "mergeDefaultOptions opts =
     (let defaults =
        [(''orientation'', JSStr ''portrait''),
         (''pageSize'', JSStr ''A4''),
         (''showHeader'', JSBool True),
         (''showFooter'', JSBool True),
         (''showPageNumbers'', JSBool False),
         (''title'', JSStr ''Document''),
         (''rtl'', JSBool False),
         (''copies'', JSNum 1)]
      in spreadOpt defaults opts)"

text \<open>
  The CDK dialog is a library outside the repository. \<^verbatim>\<open>Dialog.open\<close> returns a new
  reference showing a fresh preview component (\<^verbatim>\<open>isLoading = signal(true)\<close>,
  \<^verbatim>\<open>error = signal(null)\<close>). \<^verbatim>\<open>DialogRef.close()\<close> on an open reference disposes the
  dialog and emits on \<^verbatim>\<open>closed\<close> before it returns; on a reference already closed it
  does nothing. The only subscriber of \<^verbatim>\<open>closed\<close> is the one \<^verbatim>\<open>preview\<close> installs:
  \<^verbatim>\<open>() => { this.activeDialogRef = null; resolve(); }\<close>.
\<close>

definition Dialog_open :: "PrintPreviewData \<Rightarrow> app_state \<Rightarrow> nat \<times> app_state" where
  "Dialog_open d s =
     (length (dialogs s),
      s\<lparr>dialogs := dialogs s @
           [\<lparr>dialogData = d, isOpen = True,
             componentInstance = \<lparr>templateContainer = None, isLoading = True, error = None\<rparr>,
             closedPromise = Pending\<rparr>],
        dialogCalls := dialogCalls s @ [DialogOpen (length (dialogs s))]\<rparr>)"

definition DialogRef_close :: "nat \<Rightarrow> app_state \<Rightarrow> app_state" where
  "DialogRef_close r s =
     (let s1 = s\<lparr>dialogCalls := dialogCalls s @ [DialogClose r]\<rparr>
      in if r < length (dialogs s1) \<and> isOpen (dialogs s1 ! r)
         then s1\<lparr>dialogs := (dialogs s1)[r := (dialogs s1 ! r)\<lparr>isOpen := False, closedPromise := Resolved\<rparr>],
                 activeDialogRef := None\<rparr>
         else s1)"

definition preview :: "PrintConfig \<Rightarrow> app_state \<Rightarrow> js_error + nat \<times> app_state" where
  "preview config s =
     (case getTemplate s (templateKey config) of
        None \<Rightarrow>
          (let availableTemplates = join '', '' (getRegisteredTemplates s)
           in Inl (Error (''Print template '' @ apos @ templateKey config @ apos @ '' not found. '' @
                          ''Available templates: '' @
                          (if availableTemplates = [] then ''none'' else availableTemplates))))
      | Some template \<Rightarrow>
          (let previewData =
                 \<lparr>data = data config,
                  options = Some (mergeDefaultOptions (options config)),
                  templateComponent = component template\<rparr>;
               s1 = (case activeDialogRef s of None \<Rightarrow> s | Some r \<Rightarrow> DialogRef_close r s);
               (r, s2) = Dialog_open previewData s1
           in Inr (r, s2\<lparr>activeDialogRef := Some r\<rparr>)))"

text \<open>\<^verbatim>\<open>print\<close> only sets a timer of 250 ms whose callback is \<^verbatim>\<open>window.print()\<close>.\<close>

definition print :: "app_state \<Rightarrow> app_state" where
  "print s = s\<lparr>timers := timers s @ [(250, CallWindowPrint)]\<rparr>"

definition printDirect :: "PrintConfig \<Rightarrow> app_state \<Rightarrow> js_error + nat \<times> app_state" where
  "printDirect config s =
     (case getTemplate s (templateKey config) of
        None \<Rightarrow> Inl (Error (''Print template '' @ apos @ templateKey config @ apos @ '' not found''))
      | Some template \<Rightarrow>
          (case preview config s of
             Inl e \<Rightarrow> Inl e
           | Inr (r, s1) \<Rightarrow> Inr (r, s1\<lparr>timers := timers s1 @ [(100, CallPrint)]\<rparr>)))"

definition closePreview :: "app_state \<Rightarrow> app_state" where
  "closePreview s =
     (case activeDialogRef s of
        None \<Rightarrow> s
      | Some r \<Rightarrow> (DialogRef_close r s)\<lparr>activeDialogRef := None\<rparr>)"

text \<open>\<^verbatim>\<open>registerDefaultTemplates\<close> (register-templates.ts).\<close>

definition registerDefaultTemplates :: "app_state \<Rightarrow> app_state" where
  "registerDefaultTemplates s =
     (let s1 = registerTemplate ''invoice'' (Some (ComponentClass ''InvoicePrintComponent''))
                 (Some ''Professional invoice template with itemized billing'') s;
          s2 = registerTemplate ''report'' (Some (ComponentClass ''ReportPrintComponent''))
                 (Some ''Multi-section report template with data tables and summaries'') s1;
          s3 = registerTemplate ''table'' (Some (ComponentClass ''TablePrintComponent''))
                 (Some ''Data table template with customizable columns and filters'') s2
      in s3\<lparr>console := console s3 @ [ConsoleLog ''Print templates registered successfully'']\<rparr>)"

section \<open>The preview component's methods\<close>

text \<open>
  The preview component of dialog \<open>r\<close> is \<open>componentInstance (dialogs s ! r)\<close>; its
  \<^verbatim>\<open>data\<close> is the dialog's data. The framework resolves the \<^verbatim>\<open>@ViewChild\<close> query
  \<open>templateContainer\<close> (to a container, or to nothing) and then calls
  \<^verbatim>\<open>ngAfterViewInit\<close>, which defers \<^verbatim>\<open>loadTemplate\<close> by a timer of 0 ms.
\<close>

definition resolveViewChild :: "nat \<Rightarrow> ViewContainerRef option \<Rightarrow> app_state \<Rightarrow> app_state" where
  "resolveViewChild r vc s =
     (if r < length (dialogs s)
      then s\<lparr>dialogs := (dialogs s)[r := (dialogs s ! r)
              \<lparr>componentInstance := (componentInstance (dialogs s ! r))\<lparr>templateContainer := vc\<rparr>\<rparr>]\<rparr>
      else s)"

definition ngAfterViewInit :: "nat \<Rightarrow> app_state \<Rightarrow> app_state" where
  "ngAfterViewInit r s = s\<lparr>timers := timers s @ [(0, CallLoadTemplate r)]\<rparr>"

text \<open>
  The body of the \<^verbatim>\<open>try\<close> block of \<^verbatim>\<open>loadTemplate\<close>: the error thrown, or the
  container with the new template instance, its inputs assigned and its change
  detection run (which runs the instance's \<^verbatim>\<open>ngOnInit\<close>).
\<close>

definition tryLoadTemplate :: "PrintPreviewComponent \<Rightarrow> PrintPreviewData \<Rightarrow> js_error + ViewContainerRef" where
  "tryLoadTemplate c d =
     (case templateContainer c of
        None \<Rightarrow> Inl (Error ''ViewContainerRef is not available'')
      | Some vc \<Rightarrow>
          (case templateComponent d of
             None \<Rightarrow> Inl (Error ''Template component is not defined'')
           | Some cls \<Rightarrow>
               (case createError vc of
                  Some e \<Rightarrow> Inl e
                | None \<Rightarrow>
                    Inr (vc\<lparr>created := created vc @
                          [ngOnInit (newTemplateInstance\<lparr>data := data d, options := options d\<rparr>)]\<rparr>))))"

definition loadTemplate :: "nat \<Rightarrow> app_state \<Rightarrow> app_state" where
  "loadTemplate r s =
     (if r < length (dialogs s)
      then
        (let d = dialogs s ! r;
             c = componentInstance d;
             logs = [ConsoleLog ''Loading template...'', ConsoleLog ''Template component:'',
                     ConsoleLog ''ViewContainerRef:'']
         in case tryLoadTemplate c (dialogData d) of
              Inr vc \<Rightarrow>
                s\<lparr>dialogs := (dialogs s)[r := d\<lparr>componentInstance :=
                                   c\<lparr>templateContainer := Some vc, isLoading := False\<rparr>\<rparr>],
                  console := console s @ logs @
                    [ConsoleLog ''Component created:'', ConsoleLog ''Template loaded successfully'']\<rparr>
            | Inl err \<Rightarrow>
                s\<lparr>dialogs := (dialogs s)[r := d\<lparr>componentInstance :=
                                   c\<lparr>error := Some ''Failed to load print template. Please try again.'',
                                     isLoading := False\<rparr>\<rparr>],
                  console := console s @ logs @ [ConsoleError ''Error loading print template:'']\<rparr>)
      else s)"

definition onPrint :: "app_state \<Rightarrow> app_state" where
  "onPrint s = print s"

definition onClose :: "nat \<Rightarrow> app_state \<Rightarrow> app_state" where
  "onClose r s = DialogRef_close r s"

section \<open>Timers\<close>

text \<open>
  The callbacks handed to \<^verbatim>\<open>setTimeout\<close>: \<^verbatim>\<open>this.print()\<close> in \<^verbatim>\<open>printDirect\<close>,
  \<^verbatim>\<open>window.print()\<close> in \<^verbatim>\<open>print\<close>, \<^verbatim>\<open>this.loadTemplate()\<close> in
  \<^verbatim>\<open>ngAfterViewInit\<close>. \<open>fireTimer i\<close> is the browser running the \<open>i\<close>-th pending
  timer.
\<close>

definition runCallback :: "timer_callback \<Rightarrow> app_state \<Rightarrow> app_state" where
  "runCallback cb s =
     (case cb of
        CallPrint \<Rightarrow> print s
      | CallWindowPrint \<Rightarrow> s\<lparr>windowPrintCalls := Suc (windowPrintCalls s)\<rparr>
      | CallLoadTemplate r \<Rightarrow> loadTemplate r s)"

definition fireTimer :: "nat \<Rightarrow> app_state \<Rightarrow> app_state" where
  "fireTimer i s =
     (if i < length (timers s)
      then runCallback (snd (timers s ! i)) (s\<lparr>timers := take i (timers s) @ drop (Suc i) (timers s)\<rparr>)
      else s)"

section \<open>Example states and calls\<close>

definition invoiceOnly :: app_state where
  "invoiceOnly =
     registerTemplate ''invoice'' (Some (ComponentClass ''InvoicePrintComponent'')) None initialState"

definition configFor :: "string \<Rightarrow> jsobject option \<Rightarrow> PrintConfig" where
  "configFor k opts = \<lparr>data = JSObj [], options = opts, templateKey = k\<rparr>"

text \<open>The state after a preview of the registered template \<open>invoice\<close>.\<close>

definition invoicePreview :: app_state where
  "invoicePreview =
     (case preview (configFor ''invoice'' None) invoiceOnly of
        Inl e \<Rightarrow> invoiceOnly
      | Inr (r, s1) \<Rightarrow> s1)"

text \<open>
  A preview of the registered template \<open>invoice\<close> whose \<^verbatim>\<open>@ViewChild\<close> query resolves
  to nothing, after the deferred \<^verbatim>\<open>loadTemplate\<close> has run.
\<close>

definition mountFailure :: app_state where
  "mountFailure =
     (case preview (configFor ''invoice'' None) invoiceOnly of
        Inl e \<Rightarrow> invoiceOnly
      | Inr (r, s1) \<Rightarrow> fireTimer (length (timers s1)) (ngAfterViewInit r (resolveViewChild r None s1)))"

section \<open>Properties\<close>

subsection \<open>Maps, objects and strings\<close>


lemma map_of_mapSet: "map_of (mapSet k v m) = (map_of m)(k \<mapsto> v)"
  by (induction m) (auto simp: fun_eq_iff)

lemma map_fst_mapSet:
  "map fst (mapSet k v m) = (if k \<in> set (map fst m) then map fst m else map fst m @ [k])"
  by (induction m) auto

lemma distinct_mapSet: "distinct (map fst m) \<Longrightarrow> distinct (map fst (mapSet k v m))"
  by (simp add: map_fst_mapSet)

lemma map_of_spread:
  "distinct (map fst b) \<Longrightarrow>
   map_of (spread a b) k = (case map_of b k of None \<Rightarrow> map_of a k | Some v \<Rightarrow> Some v)"
proof (induction b arbitrary: a)
  case Nil
  then show ?case by simp
next
  case (Cons p ps)
  have notin: "k = fst p \<Longrightarrow> map_of ps k = None"
    using Cons.prems by (auto simp: map_of_eq_None_iff)
  show ?case
    using Cons.prems notin by (cases p) (auto simp: Cons.IH map_of_mapSet split: option.splits)
qed

lemma distinct_spread: "distinct (map fst a) \<Longrightarrow> distinct (map fst (spread a b))"
  by (induction b arbitrary: a) (auto simp: distinct_mapSet)

lemma count_list_distinct: "distinct xs \<Longrightarrow> x \<in> set xs \<Longrightarrow> count_list xs x = 1"
  by (induction xs) auto

lemma sublist_join: "k \<in> set ks \<Longrightarrow> sublist k (join sep ks)"
proof (induction sep ks rule: join.induct)
  case (1 sep)
  then show ?case by simp
next
  case (2 sep x)
  then show ?case by simp
next
  case (3 sep x y ys)
  show ?case
  proof (cases "k = x")
    case True
    then show ?thesis using sublist_appendI[of x "[]"] by simp
  next
    case False
    then have "sublist k (join sep (y # ys))" using 3 by simp
    then show ?thesis
      by (simp add: sublist_append)
  qed
qed

lemma getTemplate_registerTemplate:
  "getTemplate (registerTemplate k c d s) k' =
     (if k' = k then Some \<lparr>key = k, component = c, description = d\<rparr> else getTemplate s k')"
  by (simp add: getTemplate_def registerTemplate_def mapGet_def map_of_mapSet Let_def)

lemma getRegisteredTemplates_registerTemplate:
  "getRegisteredTemplates (registerTemplate k c d s) =
     (if k \<in> set (getRegisteredTemplates s) then getRegisteredTemplates s
      else getRegisteredTemplates s @ [k])"
  by (simp add: getRegisteredTemplates_def registerTemplate_def mapKeys_def map_fst_mapSet Let_def)

lemma mapHas_iff_keys: "mapHas m k \<longleftrightarrow> k \<in> set (mapKeys m)"
  by (simp add: mapHas_def mapKeys_def map_of_eq_None_iff)

lemma console_registerTemplate:
  "console (registerTemplate k c d s) =
     console s @
     (if k \<in> set (getRegisteredTemplates s)
      then [ConsoleWarn (''Print template with key '' @ apos @ k @ apos @
              '' is already registered. Overwriting...'')]
      else []) @
     [ConsoleLog (''Print template '' @ apos @ k @ apos @ '' registered successfully'')]"
  by (simp add: registerTemplate_def Let_def mapHas_iff_keys getRegisteredTemplates_def)

subsection \<open>The registry\<close>

text \<open>
  Claim C3. A \<^verbatim>\<open>Map\<close> holds each key once. For every key \<open>k\<close> and any two
  renderers \<open>r1\<close> and \<open>r2\<close>, after \<open>registerTemplate k r1\<close> followed by
  \<open>registerTemplate k r2\<close>, \<open>getTemplate k\<close> returns the descriptor holding \<open>r2\<close>
  and \<open>getRegisteredTemplates\<close> lists \<open>k\<close> exactly once. \<open>registerTemplate\<close> has
  no branch that throws (it returns the new state); all the second registration adds to
  the console is the warning and the success message.
\<close>

theorem registerTemplate_twice_last_write_wins:
  assumes "distinct (getRegisteredTemplates s)"
  shows "getTemplate (registerTemplate k r2 d2 (registerTemplate k r1 d1 s)) k =
           Some \<lparr>key = k, component = r2, description = d2\<rparr> \<and>
         count_list (getRegisteredTemplates (registerTemplate k r2 d2 (registerTemplate k r1 d1 s))) k = 1 \<and>
         console (registerTemplate k r2 d2 (registerTemplate k r1 d1 s)) =
           console (registerTemplate k r1 d1 s) @
           [ConsoleWarn (''Print template with key '' @ apos @ k @ apos @
              '' is already registered. Overwriting...''),
            ConsoleLog (''Print template '' @ apos @ k @ apos @ '' registered successfully'')]"
proof -
  let ?s1 = "registerTemplate k r1 d1 s"
  have mem: "k \<in> set (getRegisteredTemplates ?s1)"
    by (simp add: getRegisteredTemplates_registerTemplate)
  have dist: "distinct (getRegisteredTemplates ?s1)"
    using assms by (simp add: getRegisteredTemplates_registerTemplate)
  have keys: "getRegisteredTemplates (registerTemplate k r2 d2 ?s1) = getRegisteredTemplates ?s1"
    using mem by (simp add: getRegisteredTemplates_registerTemplate)
  have "count_list (getRegisteredTemplates (registerTemplate k r2 d2 ?s1)) k = 1"
    using mem dist keys by (simp add: count_list_distinct)
  moreover have "getTemplate (registerTemplate k r2 d2 ?s1) k =
      Some \<lparr>key = k, component = r2, description = d2\<rparr>"
    by (simp add: getTemplate_registerTemplate)
  moreover have "console (registerTemplate k r2 d2 ?s1) =
      console ?s1 @
      [ConsoleWarn (''Print template with key '' @ apos @ k @ apos @
         '' is already registered. Overwriting...''),
       ConsoleLog (''Print template '' @ apos @ k @ apos @ '' registered successfully'')]"
    using mem by (simp add: console_registerTemplate)
  ultimately show ?thesis by blast
qed

theorem registerTemplate_twice_witness:
  "distinct (getRegisteredTemplates initialState) \<and>
   getTemplate (registerTemplate ''invoice'' (Some (ComponentClass ''B'')) None
                 (registerTemplate ''invoice'' (Some (ComponentClass ''A'')) None initialState)) ''invoice'' =
     Some \<lparr>key = ''invoice'', component = Some (ComponentClass ''B''), description = None\<rparr> \<and>
   getRegisteredTemplates (registerTemplate ''invoice'' (Some (ComponentClass ''B'')) None
                 (registerTemplate ''invoice'' (Some (ComponentClass ''A'')) None initialState)) = [''invoice'']"
proof -
  have d: "distinct (getRegisteredTemplates initialState)"
    by (simp add: getRegisteredTemplates_def initialState_def mapKeys_def)
  have keys: "getRegisteredTemplates (registerTemplate ''invoice'' (Some (ComponentClass ''B'')) None
                 (registerTemplate ''invoice'' (Some (ComponentClass ''A'')) None initialState)) = [''invoice'']"
    by (simp add: getRegisteredTemplates_def registerTemplate_def initialState_def mapKeys_def mapHas_def Let_def)
  show ?thesis
    using d keys registerTemplate_twice_last_write_wins [OF d, of "''invoice''" "Some (ComponentClass ''B'')" None
        "Some (ComponentClass ''A'')" None]
    by simp
qed

subsection \<open>Lookup failure\<close>

lemma preview_Inl:
  "getTemplate s (templateKey config) = None \<Longrightarrow>
   preview config s =
     Inl (Error (''Print template '' @ apos @ templateKey config @ apos @
                 '' not found. Available templates: '' @
                 (if join '', '' (getRegisteredTemplates s) = [] then ''none''
                  else join '', '' (getRegisteredTemplates s))))"
  by (simp add: preview_def Let_def)

lemma preview_Inr:
  "getTemplate s (templateKey config) = Some t \<Longrightarrow> \<exists>r s'. preview config s = Inr (r, s')"
  by (simp add: preview_def Let_def split: prod.splits)

text \<open>
  Claim C2. For every key \<open>k\<close>, \<open>preview\<close> with a \<open>templateKey\<close> that has no
  registered descriptor throws an error whose message holds the requested key and the
  registered keys, joined by a comma and a space (the word \<open>none\<close> stands in when that
  joined text is empty); on an empty registry the message lists \<open>none\<close>; and for a
  registered key \<open>preview\<close> throws nothing and opens a dialog.
\<close>

theorem preview_unregistered_key_error:
  "(getTemplate s (templateKey config) = None \<longrightarrow>
      (\<exists>msg. preview config s = Inl (Error msg) \<and>
         msg = ''Print template '' @ apos @ templateKey config @ apos @
               '' not found. Available templates: '' @
               (if join '', '' (getRegisteredTemplates s) = [] then ''none''
                else join '', '' (getRegisteredTemplates s)) \<and>
         sublist (templateKey config) msg \<and>
         sublist (join '', '' (getRegisteredTemplates s)) msg \<and>
         (\<forall>k \<in> set (getRegisteredTemplates s). sublist k msg))) \<and>
   (getRegisteredTemplates s = [] \<longrightarrow>
      preview config s =
        Inl (Error (''Print template '' @ apos @ templateKey config @ apos @
                    '' not found. Available templates: none''))) \<and>
   (getTemplate s (templateKey config) \<noteq> None \<longrightarrow> (\<exists>r s'. preview config s = Inr (r, s')))"
proof (intro conjI impI)
  assume nf: "getTemplate s (templateKey config) = None"
  let ?j = "join '', '' (getRegisteredTemplates s)"
  let ?msg = "''Print template '' @ apos @ templateKey config @ apos @
               '' not found. Available templates: '' @ (if ?j = [] then ''none'' else ?j)"
  have 1: "preview config s = Inl (Error ?msg)"
    using nf by (rule preview_Inl)
  have 2: "sublist (templateKey config) ?msg"
    using sublist_appendI [of "templateKey config" "''Print template '' @ apos"] by simp
  have 3: "sublist ?j ?msg"
  proof (cases "?j = []")
    case True
    then show ?thesis by simp
  next
    case False
    then have "?msg = (''Print template '' @ apos @ templateKey config @ apos @
                       '' not found. Available templates: '') @ ?j"
      by simp
    then show ?thesis
      by (metis sublist_append_leftI)
  qed
  have 4: "\<forall>k \<in> set (getRegisteredTemplates s). sublist k ?msg"
  proof
    fix k assume "k \<in> set (getRegisteredTemplates s)"
    then have "sublist k ?j" by (rule sublist_join)
    then show "sublist k ?msg" using 3 sublist_order.order_trans by blast
  qed
  show "\<exists>msg. preview config s = Inl (Error msg) \<and>
         msg = ?msg \<and> sublist (templateKey config) msg \<and> sublist ?j msg \<and>
         (\<forall>k \<in> set (getRegisteredTemplates s). sublist k msg)"
    using 1 2 3 4 by blast
next
  assume e: "getRegisteredTemplates s = []"
  then have "templateRegistry s = []"
    by (simp add: getRegisteredTemplates_def mapKeys_def)
  then have "getTemplate s (templateKey config) = None"
    by (simp add: getTemplate_def mapGet_def)
  then show "preview config s =
        Inl (Error (''Print template '' @ apos @ templateKey config @ apos @
                    '' not found. Available templates: none''))"
    using e by (simp add: preview_Inl)
next
  assume "getTemplate s (templateKey config) \<noteq> None"
  then show "\<exists>r s'. preview config s = Inr (r, s')"
    using preview_Inr by blast
qed

lemma invoiceOnly_registry:
  "templateRegistry invoiceOnly =
     [(''invoice'', \<lparr>key = ''invoice'', component = Some (ComponentClass ''InvoicePrintComponent''),
                     description = None\<rparr>)]"
  by (simp add: invoiceOnly_def registerTemplate_def initialState_def mapHas_def Let_def)

lemma invoiceOnly_fields:
  "activeDialogRef invoiceOnly = None" "dialogs invoiceOnly = []" "dialogCalls invoiceOnly = []"
  "timers invoiceOnly = []" "windowPrintCalls invoiceOnly = 0"
  by (simp_all add: invoiceOnly_def registerTemplate_def initialState_def mapHas_def Let_def)

theorem preview_unregistered_key_witness:
  "getTemplate initialState (templateKey (configFor ''missing'' None)) = None \<and>
   getRegisteredTemplates initialState = [] \<and>
   preview (configFor ''missing'' None) initialState =
     Inl (Error ''Print template 'missing' not found. Available templates: none'') \<and>
   getTemplate invoiceOnly (templateKey (configFor ''invoice'' None)) \<noteq> None \<and>
   (\<exists>r s'. preview (configFor ''invoice'' None) invoiceOnly = Inr (r, s'))"
proof -
  have a: "getTemplate initialState (templateKey (configFor ''missing'' None)) = None"
    by (simp add: getTemplate_def initialState_def mapGet_def configFor_def)
  have b: "getRegisteredTemplates initialState = []"
    by (simp add: getRegisteredTemplates_def initialState_def mapKeys_def)
  have c: "getTemplate invoiceOnly (templateKey (configFor ''invoice'' None)) \<noteq> None"
    by (simp add: getTemplate_def invoiceOnly_registry mapGet_def configFor_def)
  have k: "templateKey (configFor ''missing'' None) = ''missing''"
    by (simp add: configFor_def)
  show ?thesis
    using a b c k
      preview_unregistered_key_error [of initialState "configFor ''missing'' None"]
      preview_unregistered_key_error [of invoiceOnly "configFor ''invoice'' None"]
    by simp
qed

text \<open>
  Claim C6. The error of \<open>printDirect\<close> for an unregistered key should hold the
  requested key and the registered keys, as the error of \<open>preview\<close> does. With
  \<open>invoice\<close> registered and the key \<open>missing\<close> requested, the message of
  \<open>printDirect\<close> stops after the key: the registered key \<open>invoice\<close> is not in it,
  while the message of \<open>preview\<close> for the same call lists it.
\<close>

theorem printDirect_error_omits_registered_keys:
  "printDirect (configFor ''missing'' None) invoiceOnly =
     Inl (Error ''Print template 'missing' not found'') \<and>
   preview (configFor ''missing'' None) invoiceOnly =
     Inl (Error ''Print template 'missing' not found. Available templates: invoice'') \<and>
   getRegisteredTemplates invoiceOnly = [''invoice''] \<and>
   \<not> sublist ''invoice'' ''Print template 'missing' not found''"
proof -
  have a: "getTemplate invoiceOnly (templateKey (configFor ''missing'' None)) = None"
    by (simp add: getTemplate_def invoiceOnly_registry mapGet_def configFor_def)
  have b: "getRegisteredTemplates invoiceOnly = [''invoice'']"
    by (simp add: getRegisteredTemplates_def invoiceOnly_registry mapKeys_def)
  have k: "templateKey (configFor ''missing'' None) = ''missing''"
    by (simp add: configFor_def)
  have c: "printDirect (configFor ''missing'' None) invoiceOnly =
     Inl (Error ''Print template 'missing' not found'')"
    using a k by (simp add: printDirect_def)
  have d: "preview (configFor ''missing'' None) invoiceOnly =
     Inl (Error ''Print template 'missing' not found. Available templates: invoice'')"
    using a b k by (simp add: preview_Inl)
  have e: "\<not> sublist ''invoice'' ''Print template 'missing' not found''"
    by code_simp
  show ?thesis using b c d e by blast
qed

subsection \<open>Option defaults\<close>

lemma mergeDefaultOptions_None:
  "mergeDefaultOptions None =
     [(''orientation'', JSStr ''portrait''), (''pageSize'', JSStr ''A4''),
      (''showHeader'', JSBool True), (''showFooter'', JSBool True),
      (''showPageNumbers'', JSBool False), (''title'', JSStr ''Document''),
      (''rtl'', JSBool False), (''copies'', JSNum 1)]"
  by (simp add: mergeDefaultOptions_def spreadOpt_def)

lemma map_of_mergeDefaultOptions:
  "isObject obj \<Longrightarrow>
   map_of (mergeDefaultOptions (Some obj)) k =
     (case map_of obj k of None \<Rightarrow> map_of (mergeDefaultOptions None) k | Some v \<Rightarrow> Some v)"
  by (simp add: mergeDefaultOptions_def spreadOpt_def isObject_def map_of_spread
      split: option.splits)

lemma isObject_mergeDefaultOptions: "isObject (mergeDefaultOptions v)"
  by (cases v) (simp_all add: mergeDefaultOptions_def spreadOpt_def isObject_def distinct_spread)

text \<open>
  Claim C4. Option merging is a shallow merge over the documented defaults: for every
  options object, every top-level key present in it overrides the default (the merged
  value is the caller's), and every absent key takes the documented default; so
  \<open>{pageSize: 'Legal'}\<close> gives a merged \<open>pageSize\<close> of \<open>Legal\<close> and an \<open>orientation\<close>
  of \<open>portrait\<close>. With no options, the merged result is exactly the default table.
\<close>

theorem mergeDefaultOptions_shallow_merge:
  "(isObject obj \<longrightarrow>
      (\<forall>k. (k \<in> set (map fst obj) \<longrightarrow>
              map_of (mergeDefaultOptions (Some obj)) k = map_of obj k) \<and>
           (k \<notin> set (map fst obj) \<longrightarrow>
              map_of (mergeDefaultOptions (Some obj)) k =
              map_of [(''orientation'', JSStr ''portrait''), (''pageSize'', JSStr ''A4''),
                      (''showHeader'', JSBool True), (''showFooter'', JSBool True),
                      (''showPageNumbers'', JSBool False), (''title'', JSStr ''Document''),
                      (''rtl'', JSBool False), (''copies'', JSNum 1)] k))) \<and>
   mergeDefaultOptions None =
     [(''orientation'', JSStr ''portrait''), (''pageSize'', JSStr ''A4''),
      (''showHeader'', JSBool True), (''showFooter'', JSBool True),
      (''showPageNumbers'', JSBool False), (''title'', JSStr ''Document''),
      (''rtl'', JSBool False), (''copies'', JSNum 1)] \<and>
   getProp (mergeDefaultOptions (Some [(''pageSize'', JSStr ''Legal'')])) ''pageSize'' = JSStr ''Legal'' \<and>
   getProp (mergeDefaultOptions (Some [(''pageSize'', JSStr ''Legal'')])) ''orientation'' = JSStr ''portrait''"
proof (intro conjI impI allI)
  fix k
  assume o: "isObject obj" and k: "k \<in> set (map fst obj)"
  from k obtain v where "map_of obj k = Some v"
    by (metis map_of_eq_None_iff not_None_eq set_map)
  then show "map_of (mergeDefaultOptions (Some obj)) k = map_of obj k"
    using o by (simp add: map_of_mergeDefaultOptions)
next
  fix k
  assume o: "isObject obj" and k: "k \<notin> set (map fst obj)"
  then have "map_of obj k = None"
    by (simp add: map_of_eq_None_iff)
  then show "map_of (mergeDefaultOptions (Some obj)) k =
              map_of [(''orientation'', JSStr ''portrait''), (''pageSize'', JSStr ''A4''),
                      (''showHeader'', JSBool True), (''showFooter'', JSBool True),
                      (''showPageNumbers'', JSBool False), (''title'', JSStr ''Document''),
                      (''rtl'', JSBool False), (''copies'', JSNum 1)] k"
    using o by (simp only: map_of_mergeDefaultOptions mergeDefaultOptions_None option.case)
next
  show "mergeDefaultOptions None =
     [(''orientation'', JSStr ''portrait''), (''pageSize'', JSStr ''A4''),
      (''showHeader'', JSBool True), (''showFooter'', JSBool True),
      (''showPageNumbers'', JSBool False), (''title'', JSStr ''Document''),
      (''rtl'', JSBool False), (''copies'', JSNum 1)]"
    by (rule mergeDefaultOptions_None)
next
  show "getProp (mergeDefaultOptions (Some [(''pageSize'', JSStr ''Legal'')])) ''pageSize'' = JSStr ''Legal''"
    by (simp add: mergeDefaultOptions_def spreadOpt_def getProp_def)
next
  show "getProp (mergeDefaultOptions (Some [(''pageSize'', JSStr ''Legal'')])) ''orientation'' = JSStr ''portrait''"
    by (simp add: mergeDefaultOptions_def spreadOpt_def getProp_def)
qed

theorem mergeDefaultOptions_shallow_merge_witness:
  "isObject [(''title'', JSStr ''Invoice 7''), (''watermark'', JSStr ''DRAFT'')] \<and>
   map_of (mergeDefaultOptions (Some [(''title'', JSStr ''Invoice 7''), (''watermark'', JSStr ''DRAFT'')]))
     ''title'' = Some (JSStr ''Invoice 7'') \<and>
   map_of (mergeDefaultOptions (Some [(''title'', JSStr ''Invoice 7''), (''watermark'', JSStr ''DRAFT'')]))
     ''copies'' = Some (JSNum 1)"
proof -
  have o: "isObject [(''title'', JSStr ''Invoice 7''), (''watermark'', JSStr ''DRAFT'')]"
    by (simp add: isObject_def)
  show ?thesis
    using o mergeDefaultOptions_shallow_merge
      [of "[(''title'', JSStr ''Invoice 7''), (''watermark'', JSStr ''DRAFT'')]"]
    by simp
qed

text \<open>
  Claim C5. The merged options should be fully populated for every options value, also
  one whose recognized keys are present and set to \<open>undefined\<close>. For the options
  \<open>{pageSize: undefined}\<close> the spread copies the property over the default: the merged
  \<open>pageSize\<close> is \<open>undefined\<close>, and that is the options value of the dialog that
  \<open>preview\<close> opens.
\<close>

theorem mergeDefaultOptions_undefined_overrides_default:
  "isObject [(''pageSize'', JSUndefined)] \<and>
   mergeDefaultOptions (Some [(''pageSize'', JSUndefined)]) =
     [(''orientation'', JSStr ''portrait''), (''pageSize'', JSUndefined),
      (''showHeader'', JSBool True), (''showFooter'', JSBool True),
      (''showPageNumbers'', JSBool False), (''title'', JSStr ''Document''),
      (''rtl'', JSBool False), (''copies'', JSNum 1)] \<and>
   getProp (mergeDefaultOptions (Some [(''pageSize'', JSUndefined)])) ''pageSize'' = JSUndefined \<and>
   (case preview (configFor ''invoice'' (Some [(''pageSize'', JSUndefined)])) invoiceOnly of
      Inl e \<Rightarrow> False
    | Inr (r, s) \<Rightarrow> optChain (options (dialogData (dialogs s ! r))) ''pageSize'' = JSUndefined)"
  by (simp add: isObject_def mergeDefaultOptions_def spreadOpt_def getProp_def optChain_def
      preview_def getTemplate_def mapGet_def invoiceOnly_registry invoiceOnly_fields
      configFor_def Dialog_open_def Let_def)

subsection \<open>Template fallbacks\<close>

lemma fallback_agrees:
  assumes "optionsValue v" and "map_of (mergeDefaultOptions None) k = Some d"
    and "d \<noteq> JSUndefined" and "d \<noteq> JSNull"
  shows "nullish (optChain (Some (mergeDefaultOptions v)) k) d = nullish (optChain v k) d"
proof (cases v)
  case None
  then show ?thesis
    using assms by (simp add: optChain_def getProp_def nullish_def)
next
  case (Some obj)
  then have "isObject obj" using assms(1) by (simp add: optionsValue_def)
  then show ?thesis
    using assms(2-) Some
    by (simp add: optChain_def getProp_def nullish_def map_of_mergeDefaultOptions split: option.splits)
qed

text \<open>
  Claim C10. The fallbacks of the template base class agree with the defaults of the
  service: for every options value \<open>v\<close> (\<open>undefined\<close> included), each computed property
  (\<open>showHeader\<close>, \<open>showFooter\<close>, \<open>pageSize\<close>, \<open>orientation\<close>, \<open>isRtl\<close>, \<open>title\<close>,
  \<open>showPageNumbers\<close>) of a template initialised with \<open>mergeDefaultOptions v\<close> equals
  the one of a template initialised with \<open>v\<close> itself.
\<close>

theorem template_fallbacks_agree_with_mergeDefaultOptions:
  assumes "optionsValue v"
  shows "showHeader (ngOnInit (t\<lparr>options := Some (mergeDefaultOptions v)\<rparr>)) =
           showHeader (ngOnInit (t\<lparr>options := v\<rparr>)) \<and>
         showFooter (ngOnInit (t\<lparr>options := Some (mergeDefaultOptions v)\<rparr>)) =
           showFooter (ngOnInit (t\<lparr>options := v\<rparr>)) \<and>
         pageSize (ngOnInit (t\<lparr>options := Some (mergeDefaultOptions v)\<rparr>)) =
           pageSize (ngOnInit (t\<lparr>options := v\<rparr>)) \<and>
         orientation (ngOnInit (t\<lparr>options := Some (mergeDefaultOptions v)\<rparr>)) =
           orientation (ngOnInit (t\<lparr>options := v\<rparr>)) \<and>
         isRtl (ngOnInit (t\<lparr>options := Some (mergeDefaultOptions v)\<rparr>)) =
           isRtl (ngOnInit (t\<lparr>options := v\<rparr>)) \<and>
         title (ngOnInit (t\<lparr>options := Some (mergeDefaultOptions v)\<rparr>)) =
           title (ngOnInit (t\<lparr>options := v\<rparr>)) \<and>
         showPageNumbers (ngOnInit (t\<lparr>options := Some (mergeDefaultOptions v)\<rparr>)) =
           showPageNumbers (ngOnInit (t\<lparr>options := v\<rparr>))"
proof -
  have d: "map_of (mergeDefaultOptions None) ''showHeader'' = Some (JSBool True)"
    "map_of (mergeDefaultOptions None) ''showFooter'' = Some (JSBool True)"
    "map_of (mergeDefaultOptions None) ''pageSize'' = Some (JSStr ''A4'')"
    "map_of (mergeDefaultOptions None) ''orientation'' = Some (JSStr ''portrait'')"
    "map_of (mergeDefaultOptions None) ''rtl'' = Some (JSBool False)"
    "map_of (mergeDefaultOptions None) ''title'' = Some (JSStr ''Document'')"
    "map_of (mergeDefaultOptions None) ''showPageNumbers'' = Some (JSBool False)"
    by (simp_all add: mergeDefaultOptions_None)
  show ?thesis
    using assms d
    by (simp add: showHeader_def showFooter_def pageSize_def orientation_def isRtl_def
        title_def showPageNumbers_def ngOnInit_def fallback_agrees)
qed

theorem template_fallbacks_witness:
  "optionsValue (Some [(''pageSize'', JSUndefined), (''title'', JSStr '''')]) \<and>
   pageSize (ngOnInit (newTemplateInstance\<lparr>options :=
       Some (mergeDefaultOptions (Some [(''pageSize'', JSUndefined), (''title'', JSStr '''')]))\<rparr>)) =
     JSStr ''A4'' \<and>
   pageSize (ngOnInit (newTemplateInstance\<lparr>options :=
       Some [(''pageSize'', JSUndefined), (''title'', JSStr '''')]\<rparr>)) = JSStr ''A4'' \<and>
   title (ngOnInit (newTemplateInstance\<lparr>options :=
       Some (mergeDefaultOptions (Some [(''pageSize'', JSUndefined), (''title'', JSStr '''')]))\<rparr>)) =
     JSStr ''''"
proof -
  have o: "optionsValue (Some [(''pageSize'', JSUndefined), (''title'', JSStr '''')])"
    by (simp add: optionsValue_def isObject_def)
  have p: "pageSize (ngOnInit (newTemplateInstance\<lparr>options :=
       Some [(''pageSize'', JSUndefined), (''title'', JSStr '''')]\<rparr>)) = JSStr ''A4''"
    by (simp add: pageSize_def ngOnInit_def newTemplateInstance_def optChain_def getProp_def nullish_def)
  have q: "title (ngOnInit (newTemplateInstance\<lparr>options :=
       Some [(''pageSize'', JSUndefined), (''title'', JSStr '''')]\<rparr>)) = JSStr ''''"
    by (simp add: title_def ngOnInit_def newTemplateInstance_def optChain_def getProp_def nullish_def)
  show ?thesis
    using o p q template_fallbacks_agree_with_mergeDefaultOptions [OF o, of newTemplateInstance]
    by simp
qed

subsection \<open>Printing\<close>

text \<open>
  Claim C7 as stated: with no session active, \<open>print\<close> does not invoke the native print
  facility. In the initial state no session is active, and once the timer that \<open>print\<close>
  sets has fired, \<^verbatim>\<open>window.print()\<close> has run once.
\<close>

theorem print_without_session_invokes_native_print:
  "activeDialogRef initialState = None \<and>
   timers (print initialState) = [(250, CallWindowPrint)] \<and>
   windowPrintCalls (fireTimer 0 (print initialState)) = 1"
  by (simp add: initialState_def print_def fireTimer_def runCallback_def)

text \<open>
  Claim C7, amended. \<open>print\<close> does not look at the active session. Whether or not a
  session is active, it throws nothing (it returns the new state), leaves the registry,
  the active-session reference, the dialogs and the console as they are, and sets one
  timer of 250 ms; when that timer fires, \<^verbatim>\<open>window.print()\<close> runs once.
\<close>

theorem print_always_schedules_native_print:
  "templateRegistry (print s) = templateRegistry s \<and>
   activeDialogRef (print s) = activeDialogRef s \<and>
   dialogs (print s) = dialogs s \<and>
   dialogCalls (print s) = dialogCalls s \<and>
   console (print s) = console s \<and>
   windowPrintCalls (print s) = windowPrintCalls s \<and>
   timers (print s) = timers s @ [(250, CallWindowPrint)] \<and>
   windowPrintCalls (fireTimer (length (timers s)) (print s)) = Suc (windowPrintCalls s) \<and>
   timers (fireTimer (length (timers s)) (print s)) = timers s"
  by (simp add: print_def fireTimer_def runCallback_def)

subsection \<open>Sessions\<close>

lemma DialogRef_close_fields:
  "templateRegistry (DialogRef_close r s) = templateRegistry s"
  "length (dialogs (DialogRef_close r s)) = length (dialogs s)"
  "dialogCalls (DialogRef_close r s) = dialogCalls s @ [DialogClose r]"
  "timers (DialogRef_close r s) = timers s"
  "windowPrintCalls (DialogRef_close r s) = windowPrintCalls s"
  "console (DialogRef_close r s) = console s"
  by (simp_all add: DialogRef_close_def Let_def)

lemma DialogRef_close_open:
  "r < length (dialogs s) \<Longrightarrow> isOpen (dialogs s ! r) \<Longrightarrow>
   dialogs (DialogRef_close r s) ! r = (dialogs s ! r)\<lparr>isOpen := False, closedPromise := Resolved\<rparr> \<and>
   activeDialogRef (DialogRef_close r s) = None"
  by (simp add: DialogRef_close_def Let_def)

text \<open>
  Claim C9. \<open>closePreview\<close> is idempotent: with no active session it leaves the whole
  state unchanged (and it has no branch that throws), so a second call in a row does
  nothing; after any call the active-session reference is null.
\<close>

theorem closePreview_idempotent:
  "(activeDialogRef s = None \<longrightarrow> closePreview s = s) \<and>
   activeDialogRef (closePreview s) = None \<and>
   closePreview (closePreview s) = closePreview s"
proof -
  have a: "activeDialogRef s = None \<longrightarrow> closePreview s = s"
    by (simp add: closePreview_def)
  have b: "activeDialogRef (closePreview s) = None"
    by (simp add: closePreview_def split: option.splits)
  have c: "closePreview (closePreview s) = closePreview s"
    using b by (simp add: closePreview_def [of "closePreview s"])
  show ?thesis using a b c by blast
qed

theorem closePreview_idempotent_witness:
  "activeDialogRef initialState = None \<and>
   closePreview initialState = initialState \<and>
   closePreview (closePreview initialState) = closePreview initialState \<and>
   activeDialogRef invoicePreview = Some 0 \<and>
   activeDialogRef (closePreview invoicePreview) = None \<and>
   closePreview (closePreview invoicePreview) = closePreview invoicePreview"
proof -
  have n: "activeDialogRef initialState = None"
    by (simp add: initialState_def)
  have a: "activeDialogRef invoicePreview = Some 0"
    by (simp add: invoicePreview_def preview_def getTemplate_def mapGet_def invoiceOnly_registry
        invoiceOnly_fields configFor_def Dialog_open_def Let_def)
  show ?thesis
    using n a closePreview_idempotent [of initialState] closePreview_idempotent [of invoicePreview]
    by simp
qed

lemma preview_registered:
  assumes "getTemplate s (templateKey c) = Some t"
  shows "\<exists>s'. preview c s = Inr (length (dialogs s), s') \<and>
           templateRegistry s' = templateRegistry s \<and>
           activeDialogRef s' = Some (length (dialogs s)) \<and>
           length (dialogs s') = Suc (length (dialogs s)) \<and>
           dialogs s' ! length (dialogs s) =
             \<lparr>dialogData = \<lparr>data = data c, options = Some (mergeDefaultOptions (options c)),
                            templateComponent = component t\<rparr>,
              isOpen = True,
              componentInstance = \<lparr>templateContainer = None, isLoading = True, error = None\<rparr>,
              closedPromise = Pending\<rparr> \<and>
           dialogCalls s' =
             dialogCalls s @
             (case activeDialogRef s of None \<Rightarrow> [] | Some r0 \<Rightarrow> [DialogClose r0]) @
             [DialogOpen (length (dialogs s))] \<and>
           timers s' = timers s \<and> windowPrintCalls s' = windowPrintCalls s \<and>
           console s' = console s"
  using assms
  by (cases "activeDialogRef s")
     (simp_all add: preview_def Dialog_open_def Let_def DialogRef_close_fields nth_append)

lemma preview_closes_active:
  assumes "getTemplate s (templateKey c) = Some t" and "activeDialogRef s = Some r0"
    and "r0 < length (dialogs s)" and "isOpen (dialogs s ! r0)"
    and "preview c s = Inr (r, s')"
  shows "dialogs s' ! r0 = (dialogs s ! r0)\<lparr>isOpen := False, closedPromise := Resolved\<rparr>"
  using assms
  by (auto simp: preview_def Dialog_open_def Let_def DialogRef_close_def nth_append)

text \<open>
  Claim C8. For two successive calls \<open>preview a\<close> then \<open>preview b\<close> with both keys
  registered: the second call issues exactly one close, of the session of \<open>a\<close>, before
  it opens the session of \<open>b\<close> (these are the only two calls it makes on the dialog
  library, and the close has returned before the open); afterwards the active-session
  reference is the session of \<open>b\<close>, which is not the session of \<open>a\<close>, and the session
  of \<open>a\<close> is closed.
\<close>

theorem preview_twice_closes_first_then_opens_second:
  assumes "getTemplate s (templateKey a) = Some ta"
    and "getTemplate s (templateKey b) = Some tb"
  shows "\<exists>rA sA rB sB.
           preview a s = Inr (rA, sA) \<and> preview b sA = Inr (rB, sB) \<and>
           dialogCalls sA =
             dialogCalls s @
             (case activeDialogRef s of None \<Rightarrow> [] | Some r0 \<Rightarrow> [DialogClose r0]) @
             [DialogOpen rA] \<and>
           activeDialogRef sA = Some rA \<and>
           dialogCalls sB = dialogCalls sA @ [DialogClose rA, DialogOpen rB] \<and>
           activeDialogRef sB = Some rB \<and> rB \<noteq> rA \<and>
           \<not> isOpen (dialogs sB ! rA) \<and> closedPromise (dialogs sB ! rA) = Resolved \<and>
           isOpen (dialogs sB ! rB) \<and>
           dialogData (dialogs sB ! rB) =
             \<lparr>data = data b, options = Some (mergeDefaultOptions (options b)),
              templateComponent = component tb\<rparr>"
proof -
  from preview_registered [OF assms(1)] obtain sA where
    A: "preview a s = Inr (length (dialogs s), sA)"
       "templateRegistry sA = templateRegistry s"
       "activeDialogRef sA = Some (length (dialogs s))"
       "length (dialogs sA) = Suc (length (dialogs s))"
       "isOpen (dialogs sA ! length (dialogs s))"
       "dialogCalls sA =
          dialogCalls s @
          (case activeDialogRef s of None \<Rightarrow> [] | Some r0 \<Rightarrow> [DialogClose r0]) @
          [DialogOpen (length (dialogs s))]"
    by force
  have tb: "getTemplate sA (templateKey b) = Some tb"
    using assms(2) A(2) by (simp add: getTemplate_def)
  from preview_registered [OF tb] obtain sB where
    B: "preview b sA = Inr (length (dialogs sA), sB)"
       "activeDialogRef sB = Some (length (dialogs sA))"
       "dialogs sB ! length (dialogs sA) =
             \<lparr>dialogData = \<lparr>data = data b, options = Some (mergeDefaultOptions (options b)),
                            templateComponent = component tb\<rparr>,
              isOpen = True,
              componentInstance = \<lparr>templateContainer = None, isLoading = True, error = None\<rparr>,
              closedPromise = Pending\<rparr>"
       "dialogCalls sB =
          dialogCalls sA @
          (case activeDialogRef sA of None \<Rightarrow> [] | Some r0 \<Rightarrow> [DialogClose r0]) @
          [DialogOpen (length (dialogs sA))]"
    by blast
  have lt: "length (dialogs s) < length (dialogs sA)"
    using A(4) by simp
  have closed: "dialogs sB ! length (dialogs s) =
      (dialogs sA ! length (dialogs s))\<lparr>isOpen := False, closedPromise := Resolved\<rparr>"
    using preview_closes_active [OF tb A(3) lt A(5) B(1)] .
  have calls: "dialogCalls sB =
      dialogCalls sA @ [DialogClose (length (dialogs s)), DialogOpen (length (dialogs sA))]"
    using B(4) A(3) by simp
  have ne: "length (dialogs sA) \<noteq> length (dialogs s)"
    using A(4) by simp
  show ?thesis
    using A(1) A(3) A(6) B(1) B(2) B(3) closed calls ne by simp
qed

theorem preview_twice_witness:
  "getTemplate (registerDefaultTemplates initialState) (templateKey (configFor ''invoice'' None)) =
     Some \<lparr>key = ''invoice'', component = Some (ComponentClass ''InvoicePrintComponent''),
           description = Some ''Professional invoice template with itemized billing''\<rparr> \<and>
   getTemplate (registerDefaultTemplates initialState) (templateKey (configFor ''table'' None)) =
     Some \<lparr>key = ''table'', component = Some (ComponentClass ''TablePrintComponent''),
           description = Some ''Data table template with customizable columns and filters''\<rparr> \<and>
   (\<exists>sA sB. preview (configFor ''invoice'' None) (registerDefaultTemplates initialState) = Inr (0, sA) \<and>
            preview (configFor ''table'' None) sA = Inr (1, sB) \<and>
            dialogCalls sB = [DialogOpen 0, DialogClose 0, DialogOpen 1] \<and>
            activeDialogRef sB = Some 1)"
proof -
  let ?s = "registerDefaultTemplates initialState"
  have reg: "templateRegistry ?s =
     [(''invoice'', \<lparr>key = ''invoice'', component = Some (ComponentClass ''InvoicePrintComponent''),
           description = Some ''Professional invoice template with itemized billing''\<rparr>),
      (''report'', \<lparr>key = ''report'', component = Some (ComponentClass ''ReportPrintComponent''),
           description = Some ''Multi-section report template with data tables and summaries''\<rparr>),
      (''table'', \<lparr>key = ''table'', component = Some (ComponentClass ''TablePrintComponent''),
           description = Some ''Data table template with customizable columns and filters''\<rparr>)]"
    by (simp add: registerDefaultTemplates_def registerTemplate_def initialState_def mapHas_def Let_def)
  have fields: "activeDialogRef ?s = None" "dialogs ?s = []" "dialogCalls ?s = []"
    by (simp_all add: registerDefaultTemplates_def registerTemplate_def initialState_def mapHas_def Let_def)
  have a: "getTemplate ?s (templateKey (configFor ''invoice'' None)) =
     Some \<lparr>key = ''invoice'', component = Some (ComponentClass ''InvoicePrintComponent''),
           description = Some ''Professional invoice template with itemized billing''\<rparr>"
    by (simp add: getTemplate_def mapGet_def reg configFor_def)
  have b: "getTemplate ?s (templateKey (configFor ''table'' None)) =
     Some \<lparr>key = ''table'', component = Some (ComponentClass ''TablePrintComponent''),
           description = Some ''Data table template with customizable columns and filters''\<rparr>"
    by (simp add: getTemplate_def mapGet_def reg configFor_def)
  from preview_twice_closes_first_then_opens_second [OF a b] obtain rA sA rB sB where
    r: "preview (configFor ''invoice'' None) ?s = Inr (rA, sA)"
       "preview (configFor ''table'' None) sA = Inr (rB, sB)"
       "dialogCalls sA = dialogCalls ?s @
             (case activeDialogRef ?s of None \<Rightarrow> [] | Some r0 \<Rightarrow> [DialogClose r0]) @ [DialogOpen rA]"
       "dialogCalls sB = dialogCalls sA @ [DialogClose rA, DialogOpen rB]"
       "activeDialogRef sB = Some rB"
    by blast
  from preview_registered [OF a] r(1) have rA: "rA = 0"
    by (auto simp: fields)
  from preview_registered [OF a] r(1) have lenA: "length (dialogs sA) = 1" "templateRegistry sA = templateRegistry ?s"
    by (auto simp: fields)
  have b': "getTemplate sA (templateKey (configFor ''table'' None)) =
     Some \<lparr>key = ''table'', component = Some (ComponentClass ''TablePrintComponent''),
           description = Some ''Data table template with customizable columns and filters''\<rparr>"
    using b lenA(2) by (simp add: getTemplate_def)
  from preview_registered [OF b'] r(2) have rB: "rB = 1"
    by (auto simp: lenA)
  have "preview (configFor ''invoice'' None) ?s = Inr (0, sA) \<and>
        preview (configFor ''table'' None) sA = Inr (1, sB) \<and>
        dialogCalls sB = [DialogOpen 0, DialogClose 0, DialogOpen 1] \<and>
        activeDialogRef sB = Some 1"
    using r rA rB fields by simp
  then show ?thesis using a b by blast
qed

subsection \<open>Mount failure\<close>

lemma tryLoadTemplate_fails:
  "templateContainer c = None \<or> templateComponent d = None \<Longrightarrow> \<exists>e. tryLoadTemplate c d = Inl e"
  by (auto simp: tryLoadTemplate_def split: option.splits)

lemma loadTemplate_fails:
  assumes "r < length (dialogs s)"
    and "templateContainer (componentInstance (dialogs s ! r)) = None \<or>
         templateComponent (dialogData (dialogs s ! r)) = None"
  shows "dialogs (loadTemplate r s) ! r =
           (dialogs s ! r)\<lparr>componentInstance := (componentInstance (dialogs s ! r))
              \<lparr>error := Some ''Failed to load print template. Please try again.'',
               isLoading := False\<rparr>\<rparr> \<and>
         length (dialogs (loadTemplate r s)) = length (dialogs s) \<and>
         activeDialogRef (loadTemplate r s) = activeDialogRef s"
proof -
  from tryLoadTemplate_fails [OF assms(2)] obtain e where
    "tryLoadTemplate (componentInstance (dialogs s ! r)) (dialogData (dialogs s ! r)) = Inl e"
    by blast
  then show ?thesis
    using assms(1) by (simp add: loadTemplate_def Let_def)
qed

text \<open>
  Claim C1 as stated: when the preview component has no mount point, the promise
  returned by \<open>preview\<close> rejects. In \<open>mountFailure\<close> the template \<open>invoice\<close> is
  registered, the view container is missing and \<^verbatim>\<open>loadTemplate\<close> has run: the component
  shows the error and no longer loads, and the promise is still pending. It is resolved
  once the dialog is closed.
\<close>

theorem mount_failure_leaves_promise_pending:
  "getTemplate invoiceOnly ''invoice'' =
     Some \<lparr>key = ''invoice'', component = Some (ComponentClass ''InvoicePrintComponent''),
           description = None\<rparr> \<and>
   templateContainer (componentInstance (dialogs mountFailure ! 0)) = None \<and>
   isLoading (componentInstance (dialogs mountFailure ! 0)) = False \<and>
   error (componentInstance (dialogs mountFailure ! 0)) =
     Some ''Failed to load print template. Please try again.'' \<and>
   closedPromise (dialogs mountFailure ! 0) = Pending \<and>
   closedPromise (dialogs (onClose 0 mountFailure) ! 0) = Resolved"
  by (simp add: mountFailure_def preview_def getTemplate_def mapGet_def invoiceOnly_registry
      invoiceOnly_fields configFor_def Dialog_open_def Let_def resolveViewChild_def
      ngAfterViewInit_def fireTimer_def runCallback_def loadTemplate_def tryLoadTemplate_def
      onClose_def DialogRef_close_def)

text \<open>
  Claim C1, amended. For every \<open>preview\<close> whose template lookup succeeds, if the
  preview component gets no view container or the descriptor's component is null, then
  once the deferred \<^verbatim>\<open>loadTemplate\<close> has run the component is in the failed state
  (\<open>isLoading\<close> false, the error message set, not ready: never stuck at loading), and
  the promise returned by \<open>preview\<close> is not rejected: it is pending, and resolved when the
  dialog is closed.
\<close>

theorem mount_failure_fails_host_and_promise_resolves_on_close:
  assumes "getTemplate s (templateKey config) = Some t"
    and "vc = None \<or> component t = None"
  shows "\<exists>r s1.
           preview config s = Inr (r, s1) \<and>
           isLoading (componentInstance (dialogs s1 ! r)) \<and>
           closedPromise (dialogs s1 ! r) = Pending \<and>
           \<not> isLoading (componentInstance (dialogs
                (fireTimer (length (timers s1)) (ngAfterViewInit r (resolveViewChild r vc s1))) ! r)) \<and>
           error (componentInstance (dialogs
                (fireTimer (length (timers s1)) (ngAfterViewInit r (resolveViewChild r vc s1))) ! r)) =
             Some ''Failed to load print template. Please try again.'' \<and>
           \<not> isReady (componentInstance (dialogs
                (fireTimer (length (timers s1)) (ngAfterViewInit r (resolveViewChild r vc s1))) ! r)) \<and>
           closedPromise (dialogs
                (fireTimer (length (timers s1)) (ngAfterViewInit r (resolveViewChild r vc s1))) ! r) =
             Pending \<and>
           closedPromise (dialogs (onClose r
                (fireTimer (length (timers s1)) (ngAfterViewInit r (resolveViewChild r vc s1)))) ! r) =
             Resolved"
proof -
  from preview_registered [OF assms(1)] obtain s1 where
    P: "preview config s = Inr (length (dialogs s), s1)"
       "length (dialogs s1) = Suc (length (dialogs s))"
       "dialogs s1 ! length (dialogs s) =
             \<lparr>dialogData = \<lparr>data = data config, options = Some (mergeDefaultOptions (options config)),
                            templateComponent = component t\<rparr>,
              isOpen = True,
              componentInstance = \<lparr>templateContainer = None, isLoading = True, error = None\<rparr>,
              closedPromise = Pending\<rparr>"
    by blast
  let ?r = "length (dialogs s)"
  let ?s2 = "ngAfterViewInit ?r (resolveViewChild ?r vc s1)"
  let ?s3 = "fireTimer (length (timers s1)) ?s2"
  have lt: "?r < length (dialogs s1)" using P(2) by simp
  have s2d: "dialogs ?s2 ! ?r =
      (dialogs s1 ! ?r)\<lparr>componentInstance :=
         (componentInstance (dialogs s1 ! ?r))\<lparr>templateContainer := vc\<rparr>\<rparr>"
    "length (dialogs ?s2) = length (dialogs s1)"
    "timers ?s2 = timers s1 @ [(0, CallLoadTemplate ?r)]"
    using lt by (simp_all add: ngAfterViewInit_def resolveViewChild_def)
  have fire: "?s3 = loadTemplate ?r (?s2\<lparr>timers := timers s1\<rparr>)"
    by (simp add: fireTimer_def s2d(3) runCallback_def)
  let ?s2' = "?s2\<lparr>timers := timers s1\<rparr>"
  have pre: "?r < length (dialogs ?s2')"
    "templateContainer (componentInstance (dialogs ?s2' ! ?r)) = None \<or>
     templateComponent (dialogData (dialogs ?s2' ! ?r)) = None"
    using lt s2d(1,2) P(3) assms(2) by auto
  from loadTemplate_fails [OF pre] have s3d:
    "dialogs ?s3 ! ?r =
       (dialogs ?s2 ! ?r)\<lparr>componentInstance := (componentInstance (dialogs ?s2 ! ?r))
          \<lparr>error := Some ''Failed to load print template. Please try again.'',
           isLoading := False\<rparr>\<rparr>"
    "length (dialogs ?s3) = length (dialogs s1)"
    using fire s2d(2) by simp_all
  have host: "\<not> isLoading (componentInstance (dialogs ?s3 ! ?r))"
    "error (componentInstance (dialogs ?s3 ! ?r)) =
       Some ''Failed to load print template. Please try again.''"
    "closedPromise (dialogs ?s3 ! ?r) = Pending"
    "isOpen (dialogs ?s3 ! ?r)"
    by (simp_all add: s3d(1) s2d(1) P(3))
  have notready: "\<not> isReady (componentInstance (dialogs ?s3 ! ?r))"
    using host(2) by (simp add: isReady_def)
  have lt3: "?r < length (dialogs ?s3)" using s3d(2) lt by simp
  have close: "closedPromise (dialogs (onClose ?r ?s3) ! ?r) = Resolved"
    using DialogRef_close_open [OF lt3 host(4)] by (simp add: onClose_def)
  have start: "isLoading (componentInstance (dialogs s1 ! ?r))" "closedPromise (dialogs s1 ! ?r) = Pending"
    by (simp_all add: P(3))
  show ?thesis
    using P(1) start host(1,2,3) notready close by blast
qed

theorem mount_failure_witness:
  "getTemplate invoiceOnly (templateKey (configFor ''invoice'' None)) =
     Some \<lparr>key = ''invoice'', component = Some (ComponentClass ''InvoicePrintComponent''),
           description = None\<rparr> \<and>
   (\<exists>s1. preview (configFor ''invoice'' None) invoiceOnly = Inr (0, s1) \<and>
      error (componentInstance (dialogs
         (fireTimer (length (timers s1)) (ngAfterViewInit 0 (resolveViewChild 0 None s1))) ! 0)) =
        Some ''Failed to load print template. Please try again.'' \<and>
      closedPromise (dialogs
         (fireTimer (length (timers s1)) (ngAfterViewInit 0 (resolveViewChild 0 None s1))) ! 0) = Pending)"
proof -
  have a: "getTemplate invoiceOnly (templateKey (configFor ''invoice'' None)) =
     Some \<lparr>key = ''invoice'', component = Some (ComponentClass ''InvoicePrintComponent''),
           description = None\<rparr>"
    by (simp add: getTemplate_def mapGet_def invoiceOnly_registry configFor_def)
  have b: "(None :: ViewContainerRef option) = None \<or>
           component \<lparr>key = ''invoice'', component = Some (ComponentClass ''InvoicePrintComponent''),
           description = None\<rparr> = None"
    by simp
  from mount_failure_fails_host_and_promise_resolves_on_close [OF a b] obtain r s1 where
    r: "preview (configFor ''invoice'' None) invoiceOnly = Inr (r, s1)"
       "error (componentInstance (dialogs
         (fireTimer (length (timers s1)) (ngAfterViewInit r (resolveViewChild r None s1))) ! r)) =
        Some ''Failed to load print template. Please try again.''"
       "closedPromise (dialogs
         (fireTimer (length (timers s1)) (ngAfterViewInit r (resolveViewChild r None s1))) ! r) = Pending"
    by blast
  from preview_registered [OF a] r(1) have "r = 0"
    by (auto simp: invoiceOnly_fields)
  then show ?thesis using a r by blast
qed

subsection \<open>The registry keeps each key once\<close>

lemma distinct_keys_initialState: "distinct (getRegisteredTemplates initialState)"
  by (simp add: getRegisteredTemplates_def initialState_def mapKeys_def)

lemma distinct_keys_registerTemplate:
  "distinct (getRegisteredTemplates s) \<Longrightarrow> distinct (getRegisteredTemplates (registerTemplate k c d s))"
  by (simp add: getRegisteredTemplates_registerTemplate)

lemma distinct_keys_unregisterTemplate:
  "distinct (getRegisteredTemplates s) \<Longrightarrow>
   distinct (getRegisteredTemplates (snd (unregisterTemplate k s)))"
  by (simp add: getRegisteredTemplates_def unregisterTemplate_def mapDelete_def mapKeys_def
      distinct_map_filter)

lemma distinct_keys_clearAllTemplates: "distinct (getRegisteredTemplates (clearAllTemplates s))"
  by (simp add: getRegisteredTemplates_def clearAllTemplates_def mapKeys_def)

lemma keys_unchanged_by_preview:
  "preview c s = Inr (r, s') \<Longrightarrow> getRegisteredTemplates s' = getRegisteredTemplates s"
  by (auto simp: preview_def getRegisteredTemplates_def Dialog_open_def Let_def
      DialogRef_close_fields split: option.splits)

end
